theory Spec2Isabelle
  imports Main "HOL-Library.Word"
begin

section \<open>Encrypted values and the permission table\<close>

text \<open>
  Modelled from the spec: the encrypted-value library (\<^verbatim>\<open>@fhevm/solidity/lib/FHE.sol\<close>) is an
  external collaborator that is not part of the repository. The spec describes an encrypted
  value as an opaque handle to a ciphertext encoding a 64-bit unsigned integer, supporting
  homomorphic add, subtract, multiply, compare and conditional select, and a permission grant
  as a pair (ciphertext, principal); grants are additive. A handle is modelled as the symbolic
  expression that produced it, so that two handles are equal exactly when they were produced
  the same way, and \<open>decrypt\<close> gives the 64-bit plaintext behind a handle (arithmetic
  wraps modulo \<open>2 ^ 64\<close>). An externally supplied ciphertext carries an identifier and the
  plaintext it encrypts. A storage slot that was never written holds \<open>Uninitialized\<close>,
  which the library's operations read as an encryption of zero.
\<close>

type_synonym address = "160 word"
type_synonym uint64 = "64 word"

datatype euint64 =
    Uninitialized
  | TrivialEncrypt uint64
  | ExternalInput nat uint64
  | FheAdd euint64 euint64
  | FheSub euint64 euint64
  | FheMul euint64 euint64
  | FheSelect ebool euint64 euint64
and ebool =
    FheLe euint64 euint64
  | FheGe euint64 euint64
  | FheGt euint64 euint64

fun decrypt :: "euint64 \<Rightarrow> uint64"
  and decrypt_bool :: "ebool \<Rightarrow> bool" where
  "decrypt Uninitialized = 0"
| "decrypt (TrivialEncrypt v) = v"
| "decrypt (ExternalInput n v) = v"
| "decrypt (FheAdd a b) = decrypt a + decrypt b"
| "decrypt (FheSub a b) = decrypt a - decrypt b"
| "decrypt (FheMul a b) = decrypt a * decrypt b"
| "decrypt (FheSelect c a b) = (if decrypt_bool c then decrypt a else decrypt b)"
| "decrypt_bool (FheLe a b) = (decrypt a \<le> decrypt b)"
| "decrypt_bool (FheGe a b) = (decrypt a \<ge> decrypt b)"
| "decrypt_bool (FheGt a b) = (decrypt a > decrypt b)"

definition FHE_asEuint64 :: "uint64 \<Rightarrow> euint64" where
  "FHE_asEuint64 v = TrivialEncrypt v"

definition FHE_isInitialized :: "euint64 \<Rightarrow> bool" where
  "FHE_isInitialized h = (h \<noteq> Uninitialized)"

definition initialized :: "euint64 \<Rightarrow> euint64" where
  "initialized h = (if FHE_isInitialized h then h else FHE_asEuint64 0)"

definition FHE_add :: "euint64 \<Rightarrow> euint64 \<Rightarrow> euint64" where
  "FHE_add a b = FheAdd (initialized a) (initialized b)"

definition FHE_sub :: "euint64 \<Rightarrow> euint64 \<Rightarrow> euint64" where
  "FHE_sub a b = FheSub (initialized a) (initialized b)"

definition FHE_mul :: "euint64 \<Rightarrow> euint64 \<Rightarrow> euint64" where
  "FHE_mul a b = FheMul (initialized a) (initialized b)"

definition FHE_le :: "euint64 \<Rightarrow> euint64 \<Rightarrow> ebool" where
  "FHE_le a b = FheLe (initialized a) (initialized b)"

definition FHE_ge :: "euint64 \<Rightarrow> euint64 \<Rightarrow> ebool" where
  "FHE_ge a b = FheGe (initialized a) (initialized b)"

definition FHE_gt :: "euint64 \<Rightarrow> euint64 \<Rightarrow> ebool" where
  "FHE_gt a b = FheGt (initialized a) (initialized b)"

definition FHE_select :: "ebool \<Rightarrow> euint64 \<Rightarrow> euint64 \<Rightarrow> euint64" where
  "FHE_select c a b = FheSelect c (initialized a) (initialized b)"

text \<open>
  An external input is accepted by \<open>FHE.fromExternal\<close> only with an input proof that attests
  it; the proof is modelled as the list of inputs it attests. The accepted handle is the
  input's own.
\<close>

datatype externalEuint64 = ExternalEuint64 nat uint64

type_synonym inputProof = "externalEuint64 list"

fun FHE_fromExternal :: "externalEuint64 \<Rightarrow> inputProof \<Rightarrow> euint64 option" where
  "FHE_fromExternal (ExternalEuint64 n v) inputProof =
     (if ExternalEuint64 n v \<in> set inputProof then Some (ExternalInput n v) else None)"

type_synonym acl = "(euint64 \<times> address) set"

definition FHE_allow :: "euint64 \<Rightarrow> address \<Rightarrow> acl \<Rightarrow> acl" where
  "FHE_allow h p A = insert (h, p) A"

definition FHE_isAllowed :: "euint64 \<Rightarrow> address \<Rightarrow> acl \<Rightarrow> bool" where
  "FHE_isAllowed h p A = ((h, p) \<in> A)"

section \<open>ConfidentialPayrollSystem\<close>

datatype role = DEFAULT_ADMIN_ROLE | EMPLOYER_ROLE | PAYROLL_ADMIN_ROLE | AUDITOR_ROLE

datatype bytes32 = Keccak256 "nat list"

datatype error =
    AccessControlUnauthorizedAccount address role
  | Revert string
  | ArithmeticOverflow
  | InvalidInputProof
  | TransferReverted

datatype event =
    EmployeeAdded address nat
  | PayrollProcessed nat nat
  | BonusDistributed address nat
  | TaxWithheld nat address
  | ComplianceReportGenerated nat bytes32

record EmployeeData =
  encryptedSalary :: euint64
  encryptedBonus :: euint64
  encryptedTaxRate :: euint64
  encryptedYTDEarnings :: euint64
  encryptedYTDTax :: euint64
  lastPaymentTimestamp :: nat
  isActive :: bool

record PayrollConfig =
  payPeriodDays :: nat
  paymentToken :: address
  treasuryAddress :: address
  encryptedTotalBudget :: euint64

text \<open>
  The contract's storage, together with what the chain keeps for it: the role table of the
  inherited \<open>AccessControl\<close>, the permission table of the encrypted-value library, the
  emitted events in order, and the contract's own address. A \<open>uint256\<close> is a natural
  number below \<open>2 ^ 256\<close>; an increment beyond that reverts.
\<close>

record payroll_state =
  roles :: "role \<Rightarrow> address \<Rightarrow> bool"
  employees :: "address \<Rightarrow> EmployeeData"
  payrollBatches :: "nat \<Rightarrow> address list"
  paymentHistory :: "address \<Rightarrow> nat \<Rightarrow> euint64"
  config :: PayrollConfig
  currentPayPeriod :: nat
  totalEmployees :: nat
  permissions :: acl
  events :: "event list"
  thisContract :: address

definition emptyEmployee :: EmployeeData where
  "emptyEmployee =
     \<lparr>encryptedSalary = Uninitialized, encryptedBonus = Uninitialized,
      encryptedTaxRate = Uninitialized, encryptedYTDEarnings = Uninitialized,
      encryptedYTDTax = Uninitialized, lastPaymentTimestamp = 0, isActive = False\<rparr>"

definition uint256_max :: nat where
  "uint256_max = 2 ^ 256 - 1"

definition increment :: "nat \<Rightarrow> error + nat" where
  "increment n = (if n < uint256_max then Inr (n + 1) else Inl ArithmeticOverflow)"

definition hasRole :: "payroll_state \<Rightarrow> role \<Rightarrow> address \<Rightarrow> bool" where
  "hasRole s r a = roles s r a"

definition onlyRole :: "payroll_state \<Rightarrow> role \<Rightarrow> address \<Rightarrow> error option" where
  "onlyRole s r sender =
     (if hasRole s r sender then None else Some (AccessControlUnauthorizedAccount sender r))"

definition constructor :: "address \<Rightarrow> address \<Rightarrow> address \<Rightarrow> address \<Rightarrow> nat \<Rightarrow> payroll_state" where
  "constructor self sender paymentToken' treasury payPeriodDays' =
     \<lparr>roles = (\<lambda>r a. a = sender \<and> r \<in> {DEFAULT_ADMIN_ROLE, EMPLOYER_ROLE, PAYROLL_ADMIN_ROLE}),
      employees = (\<lambda>a. emptyEmployee),
      payrollBatches = (\<lambda>p. []),
      paymentHistory = (\<lambda>a p. Uninitialized),
      config = \<lparr>payPeriodDays = payPeriodDays', paymentToken = paymentToken',
                treasuryAddress = treasury, encryptedTotalBudget = FHE_asEuint64 0\<rparr>,
      currentPayPeriod = 0,
      totalEmployees = 0,
      permissions = {},
      events = [],
      thisContract = self\<rparr>"

definition addEmployee ::
  "address \<Rightarrow> nat \<Rightarrow> address \<Rightarrow> externalEuint64 \<Rightarrow> externalEuint64 \<Rightarrow> inputProof \<Rightarrow>
   payroll_state \<Rightarrow> error + payroll_state" where
  "addEmployee sender now employee encSalary encTaxRate inputProof s =
     (case onlyRole s PAYROLL_ADMIN_ROLE sender of
        Some e \<Rightarrow> Inl e
      | None \<Rightarrow>
          if isActive (employees s employee) then Inl (Revert ''Employee already exists'')
          else (case FHE_fromExternal encSalary inputProof of
                  None \<Rightarrow> Inl InvalidInputProof
                | Some salary \<Rightarrow>
                    (case FHE_fromExternal encTaxRate inputProof of
                       None \<Rightarrow> Inl InvalidInputProof
                     | Some taxRate \<Rightarrow>
                         (case increment (totalEmployees s) of
                            Inl e \<Rightarrow> Inl e
                          | Inr n \<Rightarrow>
                              Inr (s\<lparr>employees := (employees s)(employee :=
                                         \<lparr>encryptedSalary = salary,
                                          encryptedBonus = FHE_asEuint64 0,
                                          encryptedTaxRate = taxRate,
                                          encryptedYTDEarnings = FHE_asEuint64 0,
                                          encryptedYTDTax = FHE_asEuint64 0,
                                          lastPaymentTimestamp = now,
                                          isActive = True\<rparr>),
                                      config := (config s)\<lparr>encryptedTotalBudget :=
                                         FHE_add (encryptedTotalBudget (config s)) salary\<rparr>,
                                      permissions :=
                                         FHE_allow salary employee
                                           (FHE_allow taxRate (thisContract s)
                                              (FHE_allow salary (thisContract s) (permissions s))),
                                      totalEmployees := n,
                                      events := events s @ [EmployeeAdded employee now]\<rparr>)))))"

definition getEmployeeByIndex :: "nat \<Rightarrow> address" where
  "getEmployeeByIndex index = 0"

definition transferConfidentialPayment :: "address \<Rightarrow> euint64 \<Rightarrow> payroll_state \<Rightarrow> payroll_state" where
  "transferConfidentialPayment to encryptedAmount s =
     s\<lparr>permissions := FHE_allow encryptedAmount (paymentToken (config s)) (permissions s)\<rparr>"

text \<open>
  One pass of the loop of \<open>processPayroll\<close>, at index \<open>i\<close> with the running count of
  processed employees. The counters \<open>i\<close> and \<open>processedCount\<close> stay below
  \<open>totalEmployees\<close>, itself a \<open>uint256\<close>, so their increments cannot overflow.
\<close>

definition payrollIteration :: "nat \<Rightarrow> nat \<Rightarrow> nat \<times> payroll_state \<Rightarrow> nat \<times> payroll_state" where
  "payrollIteration now i cs =
     (case cs of (processedCount, s) \<Rightarrow>
        let employeeAddr = getEmployeeByIndex i;
            employee = employees s employeeAddr
        in if \<not> isActive employee then (processedCount, s)
           else
             let periodSalary = encryptedSalary employee;
                 grossPay = FHE_add periodSalary (encryptedBonus employee);
                 taxAmount = FHE_mul grossPay (encryptedTaxRate employee);
                 netPay = FHE_sub grossPay taxAmount;
                 employee1 = employee\<lparr>
                   encryptedYTDEarnings := FHE_add (encryptedYTDEarnings employee) grossPay,
                   encryptedYTDTax := FHE_add (encryptedYTDTax employee) taxAmount\<rparr>;
                 s1 = s\<lparr>employees := (employees s)(employeeAddr := employee1),
                        paymentHistory := (paymentHistory s)(employeeAddr :=
                           (paymentHistory s employeeAddr)(currentPayPeriod s := netPay))\<rparr>;
                 s2 = transferConfidentialPayment employeeAddr netPay s1;
                 employee2 = employee1\<lparr>encryptedBonus := FHE_asEuint64 0,
                                        lastPaymentTimestamp := now\<rparr>
             in (processedCount + 1, s2\<lparr>employees := (employees s2)(employeeAddr := employee2)\<rparr>))"

function payrollLoop :: "nat \<Rightarrow> nat \<Rightarrow> nat \<Rightarrow> payroll_state \<Rightarrow> nat \<times> payroll_state" where
  "payrollLoop now i processedCount s =
     (if i < totalEmployees s
      then payrollLoop now (i + 1) (fst (payrollIteration now i (processedCount, s)))
                                   (snd (payrollIteration now i (processedCount, s)))
      else (processedCount, s))"
  by pat_completeness auto
termination
  by (relation "measure (\<lambda>(now, i, c, s). totalEmployees s - i)")
     (auto simp: case_prod_beta payrollIteration_def transferConfidentialPayment_def Let_def)

definition processPayroll :: "address \<Rightarrow> nat \<Rightarrow> payroll_state \<Rightarrow> error + payroll_state" where
  "processPayroll sender now s =
     (case onlyRole s PAYROLL_ADMIN_ROLE sender of
        Some e \<Rightarrow> Inl e
      | None \<Rightarrow>
          (case increment (currentPayPeriod s) of
             Inl e \<Rightarrow> Inl e
           | Inr p \<Rightarrow>
               (case payrollLoop now 0 0 (s\<lparr>currentPayPeriod := p\<rparr>) of
                  (processedCount, s') \<Rightarrow>
                    Inr (s'\<lparr>events := events s' @
                               [PayrollProcessed (currentPayPeriod s') processedCount]\<rparr>))))"

definition distributeBonus ::
  "address \<Rightarrow> nat \<Rightarrow> address \<Rightarrow> externalEuint64 \<Rightarrow> inputProof \<Rightarrow>
   payroll_state \<Rightarrow> error + payroll_state" where
  "distributeBonus sender now employee encBonus inputProof s =
     (case onlyRole s EMPLOYER_ROLE sender of
        Some e \<Rightarrow> Inl e
      | None \<Rightarrow>
          if \<not> isActive (employees s employee) then Inl (Revert ''Employee not found'')
          else (case FHE_fromExternal encBonus inputProof of
                  None \<Rightarrow> Inl InvalidInputProof
                | Some bonus \<Rightarrow>
                    let newBonus = FHE_add (encryptedBonus (employees s employee)) bonus
                    in Inr (s\<lparr>employees := (employees s)(employee :=
                                 (employees s employee)\<lparr>encryptedBonus := newBonus\<rparr>),
                              permissions := FHE_allow newBonus (thisContract s) (permissions s),
                              events := events s @ [BonusDistributed employee now]\<rparr>)))"

text \<open>
  The loop of \<open>generateComplianceReport\<close>: it reads the storage and accumulates the two
  totals.
\<close>

definition complianceIteration :: "nat \<Rightarrow> euint64 \<times> euint64 \<Rightarrow> payroll_state \<Rightarrow> euint64 \<times> euint64" where
  "complianceIteration i totals s =
     (case totals of (totalPaid, totalTax) \<Rightarrow>
        let employeeAddr = getEmployeeByIndex i;
            employee = employees s employeeAddr
        in if isActive employee
           then (FHE_add totalPaid (encryptedYTDEarnings employee),
                 FHE_add totalTax (encryptedYTDTax employee))
           else (totalPaid, totalTax))"

function complianceLoop :: "nat \<Rightarrow> euint64 \<times> euint64 \<Rightarrow> payroll_state \<Rightarrow> euint64 \<times> euint64" where
  "complianceLoop i totals s =
     (if i < totalEmployees s
      then complianceLoop (i + 1) (complianceIteration i totals s) s
      else totals)"
  by pat_completeness auto
termination
  by (relation "measure (\<lambda>(i, totals, s). totalEmployees s - i)") auto

definition complianceTotals :: "payroll_state \<Rightarrow> euint64 \<times> euint64" where
  "complianceTotals s = complianceLoop 0 (FHE_asEuint64 0, FHE_asEuint64 0) s"

definition generateComplianceReport ::
  "address \<Rightarrow> nat \<Rightarrow> payroll_state \<Rightarrow> error + (bytes32 \<times> payroll_state)" where
  "generateComplianceReport sender now s =
     (case onlyRole s AUDITOR_ROLE sender of
        Some e \<Rightarrow> Inl e
      | None \<Rightarrow>
          (case complianceTotals s of
             (totalPaid, totalTax) \<Rightarrow>
               let reportHash = Keccak256 [currentPayPeriod s, totalEmployees s, now]
               in Inr (reportHash,
                       s\<lparr>permissions := FHE_allow totalTax sender
                                           (FHE_allow totalPaid sender (permissions s)),
                         events := events s @
                           [ComplianceReportGenerated (currentPayPeriod s) reportHash]\<rparr>)))"

definition updateSalary ::
  "address \<Rightarrow> address \<Rightarrow> externalEuint64 \<Rightarrow> inputProof \<Rightarrow>
   payroll_state \<Rightarrow> error + payroll_state" where
  "updateSalary sender employee newEncSalary inputProof s =
     (case onlyRole s PAYROLL_ADMIN_ROLE sender of
        Some e \<Rightarrow> Inl e
      | None \<Rightarrow>
          if \<not> isActive (employees s employee) then Inl (Revert ''Employee not found'')
          else
            let oldSalary = encryptedSalary (employees s employee)
            in (case FHE_fromExternal newEncSalary inputProof of
                  None \<Rightarrow> Inl InvalidInputProof
                | Some newSalary \<Rightarrow>
                    let budget1 = FHE_sub (encryptedTotalBudget (config s)) oldSalary;
                        budget2 = FHE_add budget1 newSalary
                    in Inr (s\<lparr>config := (config s)\<lparr>encryptedTotalBudget := budget2\<rparr>,
                              employees := (employees s)(employee :=
                                 (employees s employee)\<lparr>encryptedSalary := newSalary\<rparr>),
                              permissions := FHE_allow newSalary employee
                                 (FHE_allow newSalary (thisContract s) (permissions s))\<rparr>)))"

definition isEmployee :: "payroll_state \<Rightarrow> address \<Rightarrow> bool" where
  "isEmployee s account = isActive (employees s account)"

definition getCurrentPayPeriod :: "payroll_state \<Rightarrow> nat" where
  "getCurrentPayPeriod s = currentPayPeriod s"

section \<open>PayrollToken\<close>

text \<open>
  \<open>PayrollToken\<close> inherits its balances and the transfer primitive \<open>_update\<close> from a
  library contract that is not part of the repository. The inherited storage and the
  permission table are kept apart in \<open>cft_state\<close>, and \<open>_update\<close> is a parameter of the
  operations below: a function on the inherited state that may revert (\<open>None\<close>). It cannot
  reach the storage that \<open>PayrollToken\<close> declares itself.
\<close>

record cft_state =
  balances :: "address \<Rightarrow> euint64"
  totalSupply :: euint64
  tokenPermissions :: acl
  tokenContract :: address

type_synonym cft_update = "address \<Rightarrow> address \<Rightarrow> euint64 \<Rightarrow> cft_state \<Rightarrow> cft_state option"

datatype token_event =
    PayrollManagerAdded address
  | PayrollManagerRemoved address
  | Token_TaxWithheld address nat
  | TaxRemitted address nat

record token_state =
  base :: cft_state
  payrollManagers :: "address \<Rightarrow> bool"
  pendingWithholdings :: "address \<Rightarrow> euint64"
  taxAuthority :: address
  owner :: address
  tokenEvents :: "token_event list"

definition confidentialBalanceOf :: "token_state \<Rightarrow> address \<Rightarrow> euint64" where
  "confidentialBalanceOf s account = balances (base s) account"

definition onlyPayrollManager :: "token_state \<Rightarrow> address \<Rightarrow> error option" where
  "onlyPayrollManager s sender =
     (if payrollManagers s sender then None else Some (Revert ''Not a payroll manager''))"

definition FHE_isSenderAllowed :: "euint64 \<Rightarrow> address \<Rightarrow> token_state \<Rightarrow> bool" where
  "FHE_isSenderAllowed h sender s = FHE_isAllowed h sender (tokenPermissions (base s))"

text \<open>The amount that \<open>processPayrollPayment\<close> hands to the transfer.\<close>

definition actualTransfer :: "token_state \<Rightarrow> address \<Rightarrow> euint64 \<Rightarrow> euint64 \<Rightarrow> euint64" where
  "actualTransfer s sender grossPay taxAmount =
     (let netPay = FHE_sub grossPay taxAmount;
          canTransfer = FHE_le grossPay (confidentialBalanceOf s sender)
      in FHE_select canTransfer netPay (FHE_asEuint64 0))"

definition processPayrollPayment ::
  "cft_update \<Rightarrow> address \<Rightarrow> nat \<Rightarrow> address \<Rightarrow> euint64 \<Rightarrow> euint64 \<Rightarrow>
   token_state \<Rightarrow> error + token_state" where
  "processPayrollPayment update sender now employee grossPay taxAmount s =
     (case onlyPayrollManager s sender of
        Some e \<Rightarrow> Inl e
      | None \<Rightarrow>
          if \<not> FHE_isSenderAllowed grossPay sender s then Inl (Revert ''Gross pay not allowed'')
          else if \<not> FHE_isSenderAllowed taxAmount sender s
          then Inl (Revert ''Tax amount not allowed'')
          else
            (case update sender employee (actualTransfer s sender grossPay taxAmount) (base s) of
               None \<Rightarrow> Inl TransferReverted
             | Some b \<Rightarrow>
                 let s1 = s\<lparr>base := b,
                            pendingWithholdings := (pendingWithholdings s)(taxAuthority s :=
                               FHE_add (pendingWithholdings s (taxAuthority s)) taxAmount)\<rparr>;
                     s2 = s1\<lparr>base := (base s1)\<lparr>tokenPermissions :=
                               FHE_allow (confidentialBalanceOf s1 employee) employee
                                 (tokenPermissions (base s1))\<rparr>\<rparr>
                 in Inr (s2\<lparr>tokenEvents := tokenEvents s2 @ [Token_TaxWithheld employee now]\<rparr>)))"

fun batchLoop ::
  "cft_update \<Rightarrow> address \<Rightarrow> nat \<Rightarrow> address list \<Rightarrow> euint64 list \<Rightarrow> euint64 list \<Rightarrow>
   token_state \<Rightarrow> error + token_state" where
  "batchLoop update sender now (e # es) (g # gs) (t # ts) s =
     (case processPayrollPayment update sender now e g t s of
        Inl err \<Rightarrow> Inl err
      | Inr s' \<Rightarrow> batchLoop update sender now es gs ts s')"
| "batchLoop update sender now es gs ts s = Inr s"

definition batchProcessPayroll ::
  "cft_update \<Rightarrow> address \<Rightarrow> nat \<Rightarrow> address list \<Rightarrow> euint64 list \<Rightarrow> euint64 list \<Rightarrow>
   token_state \<Rightarrow> error + token_state" where
  "batchProcessPayroll update sender now es grossPayments taxAmounts s =
     (case onlyPayrollManager s sender of
        Some e \<Rightarrow> Inl e
      | None \<Rightarrow>
          if \<not> (length es = length grossPayments \<and> length es = length taxAmounts)
          then Inl (Revert ''Array length mismatch'')
          else batchLoop update sender now es grossPayments taxAmounts s)"

definition remitTaxWithholdings ::
  "cft_update \<Rightarrow> address \<Rightarrow> nat \<Rightarrow> token_state \<Rightarrow> error + token_state" where
  "remitTaxWithholdings update sender now s =
     (case onlyPayrollManager s sender of
        Some e \<Rightarrow> Inl e
      | None \<Rightarrow>
          let totalTax = pendingWithholdings s (taxAuthority s);
              hasTax = FHE_gt totalTax (FHE_asEuint64 0);
              remittance = FHE_select hasTax totalTax (FHE_asEuint64 0)
          in (case update sender (taxAuthority s) remittance (base s) of
                None \<Rightarrow> Inl TransferReverted
              | Some b \<Rightarrow>
                  let s1 = s\<lparr>base := b,
                             pendingWithholdings := (pendingWithholdings s)(taxAuthority s :=
                                FHE_asEuint64 0)\<rparr>;
                      s2 = s1\<lparr>base := (base s1)\<lparr>tokenPermissions :=
                                FHE_allow (confidentialBalanceOf s1 (taxAuthority s1))
                                  (taxAuthority s1) (tokenPermissions (base s1))\<rparr>\<rparr>
                  in Inr (s2\<lparr>tokenEvents := tokenEvents s2 @
                                [TaxRemitted (taxAuthority s2) now]\<rparr>)))"

text \<open>
  A reference behaviour of the inherited transfer between two accounts, used for concrete
  runs only: the sender's balance decreases by the amount when it covers it, and the
  recipient's balance grows by what was taken; a sender without an initialised balance
  reverts. The theorems about \<open>PayrollToken\<close> hold for every transfer primitive.
\<close>

definition referenceUpdate :: cft_update where
  "referenceUpdate from to amount b =
     (let fromBalance = balances b from
      in if \<not> FHE_isInitialized fromBalance then None
         else
           let success = FHE_ge fromBalance amount;
               ptr = FHE_select success (FHE_sub fromBalance amount) fromBalance;
               b1 = b\<lparr>balances := (balances b)(from := ptr),
                      tokenPermissions := FHE_allow ptr from
                        (FHE_allow ptr (tokenContract b) (tokenPermissions b))\<rparr>;
               transferred = FHE_select success amount (FHE_asEuint64 0);
               ptr2 = FHE_add (balances b1 to) transferred
           in Some (b1\<lparr>balances := (balances b1)(to := ptr2),
                       tokenPermissions := FHE_allow ptr2 to
                         (FHE_allow ptr2 (tokenContract b1) (tokenPermissions b1))\<rparr>))"

section \<open>Transitions of ConfidentialPayrollSystem\<close>

text \<open>
  \<open>grantRole\<close> is inherited from \<open>AccessControl\<close>, where the admin of every role is
  \<open>DEFAULT_ADMIN_ROLE\<close>.
\<close>

definition grantRole :: "address \<Rightarrow> role \<Rightarrow> address \<Rightarrow> payroll_state \<Rightarrow> error + payroll_state" where
  "grantRole sender r account s =
     (case onlyRole s DEFAULT_ADMIN_ROLE sender of
        Some e \<Rightarrow> Inl e
      | None \<Rightarrow> Inr (s\<lparr>roles := (roles s)(r := (roles s r)(account := True))\<rparr>))"

text \<open>
  One transaction of the contract: a successful call of one of its state-changing functions.
  The inherited role management (\<open>grantRole\<close>, \<open>revokeRole\<close>, \<open>renounceRole\<close>) writes
  the role table only, so any change of that table is a transition.
\<close>

inductive step :: "payroll_state \<Rightarrow> payroll_state \<Rightarrow> bool" where
  step_addEmployee:
    "addEmployee sender now employee encSalary encTaxRate inputProof s = Inr s' \<Longrightarrow> step s s'"
| step_processPayroll:
    "processPayroll sender now s = Inr s' \<Longrightarrow> step s s'"
| step_distributeBonus:
    "distributeBonus sender now employee encBonus inputProof s = Inr s' \<Longrightarrow> step s s'"
| step_generateComplianceReport:
    "generateComplianceReport sender now s = Inr (h, s') \<Longrightarrow> step s s'"
| step_updateSalary:
    "updateSalary sender employee newEncSalary inputProof s = Inr s' \<Longrightarrow> step s s'"
| step_roles:
    "step s (s\<lparr>roles := r\<rparr>)"

declare payrollLoop.simps [simp del]
declare complianceLoop.simps [simp del]

section \<open>Example runs\<close>

text \<open>
  A deployment by account 1 (admin, employer and payroll admin; also the treasury) of the
  contract at address 100, with the payment token at address 200 and 14-day pay periods.
  The encrypted inputs: a salary of 5000000 cents, a tax rate of 20, a tax rate of 0 and a
  raised salary of 6000000 cents.
\<close>

definition deployed :: payroll_state where
  "deployed = constructor 100 1 200 1 14"

definition salaryInput :: externalEuint64 where
  "salaryInput = ExternalEuint64 1 5000000"

definition taxRateInput :: externalEuint64 where
  "taxRateInput = ExternalEuint64 2 20"

definition noTaxInput :: externalEuint64 where
  "noTaxInput = ExternalEuint64 3 0"

definition raiseInput :: externalEuint64 where
  "raiseInput = ExternalEuint64 4 6000000"

text \<open>
  The employee at address 5 is hired at time 1000 with salary 5000000 and tax rate 20; then
  payroll runs at time 2000, or the salary is raised instead.
\<close>

definition hired :: payroll_state where
  "hired = projr (addEmployee 1 1000 5 salaryInput taxRateInput [salaryInput, taxRateInput] deployed)"

definition hired_paid :: payroll_state where
  "hired_paid = projr (processPayroll 1 2000 hired)"

definition hired_raised :: payroll_state where
  "hired_raised = projr (updateSalary 1 5 raiseInput [raiseInput] hired)"

text \<open>
  The employee at the zero address is hired at time 1000 with salary 5000000 and tax rate 0;
  then payroll runs twice at time 2000.
\<close>

definition hired_zero :: payroll_state where
  "hired_zero = projr (addEmployee 1 1000 0 salaryInput noTaxInput [salaryInput, noTaxInput] deployed)"

definition hired_zero_paid :: payroll_state where
  "hired_zero_paid = projr (processPayroll 1 2000 hired_zero)"


text \<open>
  After the first payroll run, the employee at address 5 is hired as well at time 3000, and
  account 9 becomes an auditor.
\<close>

definition two_hired :: payroll_state where
  "two_hired =
     projr (addEmployee 1 3000 5 salaryInput taxRateInput [salaryInput, taxRateInput] hired_zero_paid)"

definition with_auditor :: payroll_state where
  "with_auditor = projr (grantRole 1 AUDITOR_ROLE 9 two_hired)"

text \<open>
  The employee at the zero address is hired with salary 5000000 and tax rate 20; then payroll
  runs at time 2000.
\<close>

definition taxed_zero :: payroll_state where
  "taxed_zero =
     projr (addEmployee 1 1000 0 salaryInput taxRateInput [salaryInput, taxRateInput] deployed)"

definition taxed_zero_paid :: payroll_state where
  "taxed_zero_paid = projr (processPayroll 1 2000 taxed_zero)"

text \<open>
  A token at address 200 whose payroll manager, account 1, holds a balance of 100; account 9
  is the tax authority, and account 1 may use encryptions of 150, 60, 30 and 10.
\<close>

definition funded_token :: token_state where
  "funded_token =
     \<lparr>base = \<lparr>balances = (\<lambda>a. Uninitialized)(1 := TrivialEncrypt 100),
               totalSupply = TrivialEncrypt 100,
               tokenPermissions = {(TrivialEncrypt 150, 1), (TrivialEncrypt 60, 1),
                                   (TrivialEncrypt 30, 1), (TrivialEncrypt 10, 1)},
               tokenContract = 200\<rparr>,
      payrollManagers = (\<lambda>a. a = 1),
      pendingWithholdings = (\<lambda>a. Uninitialized),
      taxAuthority = 9,
      owner = 1,
      tokenEvents = []\<rparr>"

text \<open>
  Account 1 pays the employee at address 5 through the token at time 3000, with the reference
  transfer: once a gross pay of 60 with tax 10, which the balance of 100 covers, and once a
  gross pay of 150 with tax 30, which it does not.
\<close>

definition funded_payment :: token_state where
  "funded_payment =
     projr (processPayrollPayment referenceUpdate 1 3000 5
              (TrivialEncrypt 60) (TrivialEncrypt 10) funded_token)"

definition underfunded_payment :: token_state where
  "underfunded_payment =
     projr (processPayrollPayment referenceUpdate 1 3000 5
              (TrivialEncrypt 150) (TrivialEncrypt 30) funded_token)"

text \<open>The auditor, account 9, asks for the compliance report at time 4000.\<close>

definition reported :: payroll_state where
  "reported = snd (projr (generateComplianceReport 9 4000 with_auditor))"

section \<open>Properties of the encrypted-value operations\<close>

lemma decrypt_initialized [simp]: "decrypt (initialized h) = decrypt h"
  by (cases h) (simp_all add: initialized_def FHE_isInitialized_def FHE_asEuint64_def)

lemma Inr_projr: "x = Inr y \<Longrightarrow> x = Inr (projr x)"
  by simp

section \<open>What the payroll loop leaves unchanged\<close>

lemma payrollIteration_frame:
  "config (snd (payrollIteration now i (c, s))) = config s"
  "totalEmployees (snd (payrollIteration now i (c, s))) = totalEmployees s"
  "currentPayPeriod (snd (payrollIteration now i (c, s))) = currentPayPeriod s"
  "roles (snd (payrollIteration now i (c, s))) = roles s"
  "events (snd (payrollIteration now i (c, s))) = events s"
  "thisContract (snd (payrollIteration now i (c, s))) = thisContract s"
  "payrollBatches (snd (payrollIteration now i (c, s))) = payrollBatches s"
  by (simp_all add: payrollIteration_def transferConfidentialPayment_def Let_def)

lemma payrollIteration_isActive:
  "isActive (employees (snd (payrollIteration now i (c, s))) a) = isActive (employees s a)"
  by (simp add: payrollIteration_def transferConfidentialPayment_def Let_def)

lemma payrollIteration_employees_other:
  "a \<noteq> 0 \<Longrightarrow> employees (snd (payrollIteration now i (c, s))) a = employees s a"
  by (simp add: payrollIteration_def transferConfidentialPayment_def getEmployeeByIndex_def Let_def)

lemma payrollLoop_frame:
  "config (snd (payrollLoop now i c s)) = config s \<and>
   totalEmployees (snd (payrollLoop now i c s)) = totalEmployees s \<and>
   currentPayPeriod (snd (payrollLoop now i c s)) = currentPayPeriod s \<and>
   roles (snd (payrollLoop now i c s)) = roles s \<and>
   events (snd (payrollLoop now i c s)) = events s \<and>
   thisContract (snd (payrollLoop now i c s)) = thisContract s"
proof (induction now i c s rule: payrollLoop.induct)
  case (1 now i processedCount s)
  show ?case
  proof (cases "i < totalEmployees s")
    case True
    with 1 show ?thesis
      by (subst (1 2 3 4 5 6) payrollLoop.simps) (simp add: payrollIteration_frame)
  next
    case False
    then show ?thesis by (simp add: payrollLoop.simps)
  qed
qed

lemma payrollLoop_isActive:
  "isActive (employees (snd (payrollLoop now i c s)) a) = isActive (employees s a)"
proof (induction now i c s rule: payrollLoop.induct)
  case (1 now i processedCount s)
  show ?case
  proof (cases "i < totalEmployees s")
    case True
    with 1 show ?thesis
      by (subst payrollLoop.simps) (simp add: payrollIteration_isActive)
  next
    case False
    then show ?thesis by (simp add: payrollLoop.simps)
  qed
qed

lemma processPayroll_Inr:
  assumes "processPayroll sender now s = Inr s'"
  shows "hasRole s PAYROLL_ADMIN_ROLE sender \<and> currentPayPeriod s < uint256_max \<and>
         s' = (snd (payrollLoop now 0 0 (s\<lparr>currentPayPeriod := currentPayPeriod s + 1\<rparr>)))
                \<lparr>events := events s @ [PayrollProcessed (currentPayPeriod s + 1)
                    (fst (payrollLoop now 0 0 (s\<lparr>currentPayPeriod := currentPayPeriod s + 1\<rparr>)))]\<rparr>"
proof -
  let ?s1 = "s\<lparr>currentPayPeriod := currentPayPeriod s + 1\<rparr>"
  from assms have role: "hasRole s PAYROLL_ADMIN_ROLE sender"
    by (auto simp: processPayroll_def onlyRole_def split: if_splits)
  from assms role have bound: "currentPayPeriod s < uint256_max"
    by (auto simp: processPayroll_def onlyRole_def increment_def split: if_splits)
  from assms role bound have
    "s' = (snd (payrollLoop now 0 0 ?s1))\<lparr>events := events (snd (payrollLoop now 0 0 ?s1)) @
            [PayrollProcessed (currentPayPeriod (snd (payrollLoop now 0 0 ?s1)))
               (fst (payrollLoop now 0 0 ?s1))]\<rparr>"
    by (simp add: processPayroll_def onlyRole_def increment_def case_prod_beta)
  with role bound show ?thesis
    by (simp add: payrollLoop_frame)
qed

lemma processPayroll_succeeds:
  assumes "hasRole s PAYROLL_ADMIN_ROLE sender" and "currentPayPeriod s < uint256_max"
  shows "\<exists>s'. processPayroll sender now s = Inr s'"
  using assms
  by (simp add: processPayroll_def onlyRole_def increment_def case_prod_beta)

section \<open>Invariants of the transitions\<close>

lemma step_isActive:
  "step s s' \<Longrightarrow> isActive (employees s a) \<Longrightarrow> isActive (employees s' a)"
proof (induction rule: step.induct)
  case step_addEmployee
  then show ?case
    by (auto simp: addEmployee_def split: option.splits sum.splits if_splits)
next
  case step_processPayroll
  then show ?case
    by (auto dest!: processPayroll_Inr simp: payrollLoop_isActive)
next
  case step_distributeBonus
  then show ?case
    by (auto simp: distributeBonus_def Let_def split: option.splits if_splits)
next
  case step_generateComplianceReport
  then show ?case
    by (auto simp: generateComplianceReport_def Let_def split: option.splits prod.splits)
next
  case step_updateSalary
  then show ?case
    by (auto simp: updateSalary_def Let_def split: option.splits if_splits)
next
  case step_roles
  then show ?case by simp
qed

lemma step_totalEmployees:
  "step s s' \<Longrightarrow> totalEmployees s \<le> totalEmployees s'"
proof (induction rule: step.induct)
  case step_addEmployee
  then show ?case
    by (auto simp: addEmployee_def increment_def split: option.splits sum.splits if_splits)
next
  case step_processPayroll
  then show ?case
    by (auto dest!: processPayroll_Inr simp: payrollLoop_frame)
next
  case step_distributeBonus
  then show ?case
    by (auto simp: distributeBonus_def Let_def split: option.splits if_splits)
next
  case step_generateComplianceReport
  then show ?case
    by (auto simp: generateComplianceReport_def Let_def split: option.splits prod.splits)
next
  case step_updateSalary
  then show ?case
    by (auto simp: updateSalary_def Let_def split: option.splits if_splits)
next
  case step_roles
  then show ?case by simp
qed

lemma addEmployee_active:
  "addEmployee sender now a encSalary encTaxRate inputProof s0 = Inr s \<Longrightarrow> isActive (employees s a)"
  by (auto simp: addEmployee_def split: option.splits sum.splits if_splits)

lemma hired_eq:
  "hired = deployed\<lparr>employees := (employees deployed)(5 :=
              \<lparr>encryptedSalary = ExternalInput 1 5000000,
               encryptedBonus = TrivialEncrypt 0,
               encryptedTaxRate = ExternalInput 2 20,
               encryptedYTDEarnings = TrivialEncrypt 0,
               encryptedYTDTax = TrivialEncrypt 0,
               lastPaymentTimestamp = 1000,
               isActive = True\<rparr>),
            config := (config deployed)\<lparr>encryptedTotalBudget :=
               FheAdd (TrivialEncrypt 0) (ExternalInput 1 5000000)\<rparr>,
            permissions := {(ExternalInput 1 5000000, 5), (ExternalInput 2 20, 100),
                            (ExternalInput 1 5000000, 100)},
            totalEmployees := 1,
            events := [EmployeeAdded 5 1000]\<rparr>"
  by (simp add: hired_def addEmployee_def deployed_def constructor_def onlyRole_def hasRole_def
        emptyEmployee_def salaryInput_def taxRateInput_def increment_def uint256_max_def
        FHE_asEuint64_def FHE_add_def FHE_allow_def initialized_def FHE_isInitialized_def)

lemma addEmployee_hired:
  "addEmployee 1 1000 5 salaryInput taxRateInput [salaryInput, taxRateInput] deployed = Inr hired"
  by (simp add: hired_def addEmployee_def deployed_def constructor_def onlyRole_def hasRole_def
        emptyEmployee_def salaryInput_def taxRateInput_def increment_def uint256_max_def)

lemma processPayroll_hired: "processPayroll 1 2000 hired = Inr hired_paid"
proof -
  have "hasRole hired PAYROLL_ADMIN_ROLE 1" and "currentPayPeriod hired < uint256_max"
    by (simp_all add: hired_eq deployed_def constructor_def hasRole_def uint256_max_def)
  then obtain s' where "processPayroll 1 2000 hired = Inr s'"
    using processPayroll_succeeds by blast
  then show ?thesis
    unfolding hired_paid_def by (rule Inr_projr)
qed

section \<open>Unfolding the loops\<close>

lemma payrollLoop_step:
  "i < totalEmployees s \<Longrightarrow>
   payrollLoop now i c s =
     payrollLoop now (i + 1) (fst (payrollIteration now i (c, s)))
                             (snd (payrollIteration now i (c, s)))"
  by (subst payrollLoop.simps) simp

lemma payrollLoop_done:
  "\<not> i < totalEmployees s \<Longrightarrow> payrollLoop now i c s = (c, s)"
  by (subst payrollLoop.simps) simp

lemma payrollLoop_once:
  "totalEmployees s = 1 \<Longrightarrow> payrollLoop now 0 c s = payrollIteration now 0 (c, s)"
  by (simp add: payrollLoop_step payrollLoop_done payrollIteration_frame)

lemma payrollIteration_inactive:
  "\<not> isActive (employees s 0) \<Longrightarrow> payrollIteration now i (c, s) = (c, s)"
  by (simp add: payrollIteration_def getEmployeeByIndex_def)

lemma payrollIteration_active:
  assumes "isActive (employees s 0)"
  shows "payrollIteration now i (c, s) =
    (let e = employees s 0;
         grossPay = FHE_add (encryptedSalary e) (encryptedBonus e);
         taxAmount = FHE_mul grossPay (encryptedTaxRate e);
         netPay = FHE_sub grossPay taxAmount
     in (c + 1,
         s\<lparr>employees := (employees s)(0 := e\<lparr>
               encryptedYTDEarnings := FHE_add (encryptedYTDEarnings e) grossPay,
               encryptedYTDTax := FHE_add (encryptedYTDTax e) taxAmount,
               encryptedBonus := FHE_asEuint64 0,
               lastPaymentTimestamp := now\<rparr>),
           paymentHistory := (paymentHistory s)(0 :=
               (paymentHistory s 0)(currentPayPeriod s := netPay)),
           permissions := FHE_allow netPay (paymentToken (config s)) (permissions s)\<rparr>))"
  using assms
  by (simp add: payrollIteration_def getEmployeeByIndex_def transferConfidentialPayment_def Let_def)

lemma processPayroll_projr:
  assumes "hasRole s PAYROLL_ADMIN_ROLE sender" and "currentPayPeriod s < uint256_max"
  shows "processPayroll sender now s = Inr (projr (processPayroll sender now s))"
  using processPayroll_succeeds [OF assms, of now] by auto

lemma processPayroll_once:
  assumes "processPayroll sender now s = Inr s'" and "totalEmployees s = 1"
    and "isActive (employees s 0)"
  shows "s' =
    (let e = employees s 0;
         grossPay = FHE_add (encryptedSalary e) (encryptedBonus e);
         taxAmount = FHE_mul grossPay (encryptedTaxRate e);
         netPay = FHE_sub grossPay taxAmount
     in s\<lparr>currentPayPeriod := currentPayPeriod s + 1,
           employees := (employees s)(0 := e\<lparr>
               encryptedYTDEarnings := FHE_add (encryptedYTDEarnings e) grossPay,
               encryptedYTDTax := FHE_add (encryptedYTDTax e) taxAmount,
               encryptedBonus := FHE_asEuint64 0,
               lastPaymentTimestamp := now\<rparr>),
           paymentHistory := (paymentHistory s)(0 :=
               (paymentHistory s 0)(currentPayPeriod s + 1 := netPay)),
           permissions := FHE_allow netPay (paymentToken (config s)) (permissions s),
           events := events s @ [PayrollProcessed (currentPayPeriod s + 1) 1]\<rparr>)"
  using processPayroll_Inr [OF assms(1)] assms(2,3)
  by (simp add: payrollLoop_once payrollIteration_active Let_def)

lemma processPayroll_nobody:
  assumes "processPayroll sender now s = Inr s'" and "\<not> isActive (employees s 0)"
    and "totalEmployees s = 1"
  shows "s' = s\<lparr>currentPayPeriod := currentPayPeriod s + 1,
                 events := events s @ [PayrollProcessed (currentPayPeriod s + 1) 0]\<rparr>"
  using processPayroll_Inr [OF assms(1)] assms(2,3)
  by (simp add: payrollLoop_once payrollIteration_inactive)

lemma complianceLoop_step:
  "i < totalEmployees s \<Longrightarrow>
   complianceLoop i totals s = complianceLoop (i + 1) (complianceIteration i totals s) s"
  by (subst complianceLoop.simps) simp

lemma complianceLoop_done:
  "\<not> i < totalEmployees s \<Longrightarrow> complianceLoop i totals s = totals"
  by (subst complianceLoop.simps) simp

section \<open>The example runs, evaluated\<close>

lemmas run_defs =
  addEmployee_def deployed_def constructor_def onlyRole_def hasRole_def
  emptyEmployee_def salaryInput_def taxRateInput_def noTaxInput_def raiseInput_def
  increment_def uint256_max_def
  FHE_asEuint64_def FHE_add_def FHE_sub_def FHE_mul_def FHE_allow_def initialized_def
  FHE_isInitialized_def

subsection \<open>hired\<close>

lemma hired_paid_eq:
  "hired_paid = hired\<lparr>currentPayPeriod := 1,
                      events := [EmployeeAdded 5 1000, PayrollProcessed 1 0]\<rparr>"
  using processPayroll_nobody [OF processPayroll_hired]
  by (simp add: hired_eq run_defs)

lemma hired_raised_eq:
  "hired_raised = hired\<lparr>
      config := (config hired)\<lparr>encryptedTotalBudget :=
         FheAdd (FheSub (FheAdd (TrivialEncrypt 0) (ExternalInput 1 5000000))
                        (ExternalInput 1 5000000)) (ExternalInput 4 6000000)\<rparr>,
      employees := (employees hired)(5 :=
              \<lparr>encryptedSalary = ExternalInput 4 6000000,
               encryptedBonus = TrivialEncrypt 0,
               encryptedTaxRate = ExternalInput 2 20,
               encryptedYTDEarnings = TrivialEncrypt 0,
               encryptedYTDTax = TrivialEncrypt 0,
               lastPaymentTimestamp = 1000,
               isActive = True\<rparr>),
      permissions := {(ExternalInput 4 6000000, 5), (ExternalInput 4 6000000, 100),
                      (ExternalInput 1 5000000, 5), (ExternalInput 2 20, 100),
                      (ExternalInput 1 5000000, 100)}\<rparr>"
  by (simp add: hired_raised_def updateSalary_def hired_eq run_defs Let_def)

lemma updateSalary_hired: "updateSalary 1 5 raiseInput [raiseInput] hired = Inr hired_raised"
  by (simp add: hired_raised_def updateSalary_def hired_eq run_defs Let_def)

subsection \<open>hired_zero\<close>

lemma hired_zero_eq:
  "hired_zero = deployed\<lparr>employees := (employees deployed)(0 :=
              \<lparr>encryptedSalary = ExternalInput 1 5000000,
               encryptedBonus = TrivialEncrypt 0,
               encryptedTaxRate = ExternalInput 3 0,
               encryptedYTDEarnings = TrivialEncrypt 0,
               encryptedYTDTax = TrivialEncrypt 0,
               lastPaymentTimestamp = 1000,
               isActive = True\<rparr>),
            config := (config deployed)\<lparr>encryptedTotalBudget :=
               FheAdd (TrivialEncrypt 0) (ExternalInput 1 5000000)\<rparr>,
            permissions := {(ExternalInput 1 5000000, 0), (ExternalInput 3 0, 100),
                            (ExternalInput 1 5000000, 100)},
            totalEmployees := 1,
            events := [EmployeeAdded 0 1000]\<rparr>"
  by (simp add: hired_zero_def run_defs)

lemma addEmployee_hired_zero:
  "addEmployee 1 1000 0 salaryInput noTaxInput [salaryInput, noTaxInput] deployed = Inr hired_zero"
  by (simp add: hired_zero_def run_defs)

lemma processPayroll_hired_zero: "processPayroll 1 2000 hired_zero = Inr hired_zero_paid"
  unfolding hired_zero_paid_def
  by (rule processPayroll_projr) (simp_all add: hired_zero_eq run_defs)

lemma hired_zero_paid_eq:
  "hired_zero_paid = hired_zero\<lparr>currentPayPeriod := 1,
      employees := (employees hired_zero)(0 :=
              \<lparr>encryptedSalary = ExternalInput 1 5000000,
               encryptedBonus = TrivialEncrypt 0,
               encryptedTaxRate = ExternalInput 3 0,
               encryptedYTDEarnings = FheAdd (TrivialEncrypt 0)
                  (FheAdd (ExternalInput 1 5000000) (TrivialEncrypt 0)),
               encryptedYTDTax = FheAdd (TrivialEncrypt 0)
                  (FheMul (FheAdd (ExternalInput 1 5000000) (TrivialEncrypt 0)) (ExternalInput 3 0)),
               lastPaymentTimestamp = 2000,
               isActive = True\<rparr>),
      paymentHistory := (paymentHistory hired_zero)(0 := (paymentHistory hired_zero 0)(1 :=
         FheSub (FheAdd (ExternalInput 1 5000000) (TrivialEncrypt 0))
                (FheMul (FheAdd (ExternalInput 1 5000000) (TrivialEncrypt 0)) (ExternalInput 3 0)))),
      permissions := insert
         (FheSub (FheAdd (ExternalInput 1 5000000) (TrivialEncrypt 0))
                (FheMul (FheAdd (ExternalInput 1 5000000) (TrivialEncrypt 0)) (ExternalInput 3 0)), 200)
         (permissions hired_zero),
      events := [EmployeeAdded 0 1000, PayrollProcessed 1 1]\<rparr>"
  using processPayroll_once [OF processPayroll_hired_zero]
  by (simp add: hired_zero_eq run_defs Let_def)



subsection \<open>taxed_zero\<close>

lemma taxed_zero_eq:
  "taxed_zero = deployed\<lparr>employees := (employees deployed)(0 :=
              \<lparr>encryptedSalary = ExternalInput 1 5000000,
               encryptedBonus = TrivialEncrypt 0,
               encryptedTaxRate = ExternalInput 2 20,
               encryptedYTDEarnings = TrivialEncrypt 0,
               encryptedYTDTax = TrivialEncrypt 0,
               lastPaymentTimestamp = 1000,
               isActive = True\<rparr>),
            config := (config deployed)\<lparr>encryptedTotalBudget :=
               FheAdd (TrivialEncrypt 0) (ExternalInput 1 5000000)\<rparr>,
            permissions := {(ExternalInput 1 5000000, 0), (ExternalInput 2 20, 100),
                            (ExternalInput 1 5000000, 100)},
            totalEmployees := 1,
            events := [EmployeeAdded 0 1000]\<rparr>"
  by (simp add: taxed_zero_def run_defs)

lemma addEmployee_taxed_zero:
  "addEmployee 1 1000 0 salaryInput taxRateInput [salaryInput, taxRateInput] deployed = Inr taxed_zero"
  by (simp add: taxed_zero_def run_defs)

lemma processPayroll_taxed_zero: "processPayroll 1 2000 taxed_zero = Inr taxed_zero_paid"
  unfolding taxed_zero_paid_def
  by (rule processPayroll_projr) (simp_all add: taxed_zero_eq run_defs)

lemma taxed_zero_paid_eq:
  "taxed_zero_paid = taxed_zero\<lparr>currentPayPeriod := 1,
      employees := (employees taxed_zero)(0 :=
              \<lparr>encryptedSalary = ExternalInput 1 5000000,
               encryptedBonus = TrivialEncrypt 0,
               encryptedTaxRate = ExternalInput 2 20,
               encryptedYTDEarnings = FheAdd (TrivialEncrypt 0)
                  (FheAdd (ExternalInput 1 5000000) (TrivialEncrypt 0)),
               encryptedYTDTax = FheAdd (TrivialEncrypt 0)
                  (FheMul (FheAdd (ExternalInput 1 5000000) (TrivialEncrypt 0)) (ExternalInput 2 20)),
               lastPaymentTimestamp = 2000,
               isActive = True\<rparr>),
      paymentHistory := (paymentHistory taxed_zero)(0 := (paymentHistory taxed_zero 0)(1 :=
         FheSub (FheAdd (ExternalInput 1 5000000) (TrivialEncrypt 0))
                (FheMul (FheAdd (ExternalInput 1 5000000) (TrivialEncrypt 0)) (ExternalInput 2 20)))),
      permissions := insert
         (FheSub (FheAdd (ExternalInput 1 5000000) (TrivialEncrypt 0))
                (FheMul (FheAdd (ExternalInput 1 5000000) (TrivialEncrypt 0)) (ExternalInput 2 20)), 200)
         (permissions taxed_zero),
      events := [EmployeeAdded 0 1000, PayrollProcessed 1 1]\<rparr>"
  using processPayroll_once [OF processPayroll_taxed_zero]
  by (simp add: taxed_zero_eq run_defs Let_def)

subsection \<open>with_auditor\<close>

lemma two_hired_eq:
  "two_hired = hired_zero_paid\<lparr>employees := (employees hired_zero_paid)(5 :=
              \<lparr>encryptedSalary = ExternalInput 1 5000000,
               encryptedBonus = TrivialEncrypt 0,
               encryptedTaxRate = ExternalInput 2 20,
               encryptedYTDEarnings = TrivialEncrypt 0,
               encryptedYTDTax = TrivialEncrypt 0,
               lastPaymentTimestamp = 3000,
               isActive = True\<rparr>),
            config := (config hired_zero_paid)\<lparr>encryptedTotalBudget :=
               FheAdd (FheAdd (TrivialEncrypt 0) (ExternalInput 1 5000000))
                      (ExternalInput 1 5000000)\<rparr>,
            permissions := insert (ExternalInput 1 5000000, 5)
               (insert (ExternalInput 2 20, 100) (permissions hired_zero_paid)),
            totalEmployees := 2,
            events := [EmployeeAdded 0 1000, PayrollProcessed 1 1, EmployeeAdded 5 3000]\<rparr>"
  by (simp add: two_hired_def hired_zero_paid_eq hired_zero_eq run_defs insert_commute)

lemma addEmployee_two_hired:
  "addEmployee 1 3000 5 salaryInput taxRateInput [salaryInput, taxRateInput] hired_zero_paid =
     Inr two_hired"
  by (simp add: two_hired_def hired_zero_paid_eq hired_zero_eq run_defs)

lemma with_auditor_eq:
  "with_auditor = two_hired\<lparr>roles := (roles two_hired)(AUDITOR_ROLE :=
      (roles two_hired AUDITOR_ROLE)(9 := True))\<rparr>"
  by (simp add: with_auditor_def grantRole_def two_hired_eq hired_zero_paid_eq hired_zero_eq run_defs)

lemma grantRole_with_auditor: "grantRole 1 AUDITOR_ROLE 9 two_hired = Inr with_auditor"
  by (simp add: with_auditor_def grantRole_def two_hired_eq hired_zero_paid_eq hired_zero_eq run_defs)

lemma complianceTotals_with_auditor:
  "complianceTotals with_auditor =
     (FheAdd (FheAdd (TrivialEncrypt 0)
                (FheAdd (TrivialEncrypt 0) (FheAdd (ExternalInput 1 5000000) (TrivialEncrypt 0))))
             (FheAdd (TrivialEncrypt 0) (FheAdd (ExternalInput 1 5000000) (TrivialEncrypt 0))),
      FheAdd (FheAdd (TrivialEncrypt 0)
                (FheAdd (TrivialEncrypt 0)
                   (FheMul (FheAdd (ExternalInput 1 5000000) (TrivialEncrypt 0)) (ExternalInput 3 0))))
             (FheAdd (TrivialEncrypt 0)
                (FheMul (FheAdd (ExternalInput 1 5000000) (TrivialEncrypt 0)) (ExternalInput 3 0))))"
  by (simp add: complianceTotals_def complianceLoop_step complianceLoop_done complianceIteration_def
        getEmployeeByIndex_def with_auditor_eq two_hired_eq hired_zero_paid_eq hired_zero_eq run_defs)

subsection \<open>funded_token\<close>

lemmas token_defs =
  processPayrollPayment_def onlyPayrollManager_def FHE_isSenderAllowed_def FHE_isAllowed_def
  actualTransfer_def confidentialBalanceOf_def referenceUpdate_def funded_token_def
  FHE_select_def FHE_le_def FHE_ge_def FHE_sub_def FHE_add_def FHE_asEuint64_def FHE_allow_def
  initialized_def FHE_isInitialized_def Let_def

lemma processPayrollPayment_funded:
  "processPayrollPayment referenceUpdate 1 3000 5 (TrivialEncrypt 60) (TrivialEncrypt 10)
     funded_token = Inr funded_payment"
  by (simp add: funded_payment_def token_defs)

lemma processPayrollPayment_underfunded:
  "processPayrollPayment referenceUpdate 1 3000 5 (TrivialEncrypt 150) (TrivialEncrypt 30)
     funded_token = Inr underfunded_payment"
  by (simp add: underfunded_payment_def token_defs)

lemma underfunded_payment_balances:
  "decrypt (confidentialBalanceOf underfunded_payment 5) = 0"
  "decrypt (confidentialBalanceOf underfunded_payment 1) = 100"
  "decrypt (pendingWithholdings underfunded_payment 9) = 30"
  by (simp_all add: underfunded_payment_def token_defs)

lemma funded_payment_balances:
  "decrypt (confidentialBalanceOf funded_payment 5) = 50"
  "decrypt (confidentialBalanceOf funded_payment 1) = 50"
  "decrypt (pendingWithholdings funded_payment 9) = 10"
  by (simp_all add: funded_payment_def token_defs)

subsection \<open>reported\<close>

lemma generateComplianceReport_Inr:
  assumes "hasRole s AUDITOR_ROLE sender"
  shows "generateComplianceReport sender now s =
     Inr (Keccak256 [currentPayPeriod s, totalEmployees s, now],
          s\<lparr>permissions := FHE_allow (snd (complianceTotals s)) sender
                              (FHE_allow (fst (complianceTotals s)) sender (permissions s)),
            events := events s @ [ComplianceReportGenerated (currentPayPeriod s)
                        (Keccak256 [currentPayPeriod s, totalEmployees s, now])]\<rparr>)"
  using assms
  by (simp add: generateComplianceReport_def onlyRole_def case_prod_beta Let_def)

lemma with_auditor_fields:
  "hasRole with_auditor AUDITOR_ROLE 9"
  "currentPayPeriod with_auditor = 1"
  "totalEmployees with_auditor = 2"
  "events with_auditor = [EmployeeAdded 0 1000, PayrollProcessed 1 1, EmployeeAdded 5 3000]"
  by (simp_all add: with_auditor_eq two_hired_eq hired_zero_paid_eq hired_zero_eq hasRole_def)

lemma generateComplianceReport_with_auditor:
  "generateComplianceReport 9 4000 with_auditor = Inr (Keccak256 [1, 2, 4000], reported)"
proof -
  have "generateComplianceReport 9 4000 with_auditor =
      Inr (Keccak256 [1, 2, 4000], snd (projr (generateComplianceReport 9 4000 with_auditor)))"
    by (simp add: generateComplianceReport_Inr [OF with_auditor_fields(1)] with_auditor_fields)
  then show ?thesis by (simp only: reported_def)
qed

lemma reported_eq:
  "reported = with_auditor\<lparr>
      permissions := FHE_allow (snd (complianceTotals with_auditor)) 9
                       (FHE_allow (fst (complianceTotals with_auditor)) 9 (permissions with_auditor)),
      events := [EmployeeAdded 0 1000, PayrollProcessed 1 1, EmployeeAdded 5 3000,
                 ComplianceReportGenerated 1 (Keccak256 [1, 2, 4000])]\<rparr>"
  by (simp add: reported_def generateComplianceReport_Inr [OF with_auditor_fields(1)]
        with_auditor_fields)

section \<open>Claims\<close>

subsection \<open>C1: conservation of the budget\<close>

text \<open>
  C1, as stated, fails on the run in which the employee at the zero address (salary 5000000,
  tax rate 0) is paid: the payment written for period 1 decrypts to 5000000 while the budget
  debited over the call is 0.
\<close>

theorem conservation_counterexample:
  "addEmployee 1 1000 0 salaryInput noTaxInput [salaryInput, noTaxInput] deployed =
     Inr hired_zero \<and>
   processPayroll 1 2000 hired_zero = Inr hired_zero_paid \<and>
   currentPayPeriod hired_zero_paid = 1 \<and>
   decrypt (paymentHistory hired_zero_paid 0 1) = 5000000 \<and>
   decrypt (encryptedTotalBudget (config hired_zero))
     - decrypt (encryptedTotalBudget (config hired_zero_paid)) = 0"
proof -
  have paid:
    "currentPayPeriod hired_zero_paid = 1"
    "decrypt (paymentHistory hired_zero_paid 0 1) = 5000000"
    "decrypt (encryptedTotalBudget (config hired_zero))
       - decrypt (encryptedTotalBudget (config hired_zero_paid)) = 0"
    by (simp_all add: hired_zero_paid_eq)
  show ?thesis
    by (intro conjI) (rule addEmployee_hired_zero processPayroll_hired_zero paid)+
qed

text \<open>
  C1, amended: \<open>processPayroll\<close> never debits \<open>config.encryptedTotalBudget\<close>. After a
  successful call the configuration, and with it the encrypted total budget, is what it was
  before the call, whatever net payments the call has written.
\<close>

theorem processPayroll_keeps_budget:
  assumes "processPayroll sender now s = Inr s'"
  shows "config s' = config s \<and>
         decrypt (encryptedTotalBudget (config s))
           - decrypt (encryptedTotalBudget (config s')) = 0"
proof -
  let ?s1 = "s\<lparr>currentPayPeriod := currentPayPeriod s + 1\<rparr>"
  from processPayroll_Inr [OF assms]
  have "config s' = config (snd (payrollLoop now 0 0 ?s1))"
    by simp
  also have "\<dots> = config ?s1"
    by (simp add: payrollLoop_frame)
  also have "\<dots> = config s"
    by simp
  finally have "config s' = config s" .
  then show ?thesis
    by simp
qed

theorem processPayroll_keeps_budget_witness:
  "processPayroll 1 2000 hired_zero = Inr hired_zero_paid \<and>
   config hired_zero_paid = config hired_zero \<and>
   decrypt (encryptedTotalBudget (config hired_zero_paid)) = 5000000"
proof -
  have kept: "config hired_zero_paid = config hired_zero"
    using processPayroll_hired_zero by (rule processPayroll_keeps_budget [THEN conjunct1])
  then have budget: "decrypt (encryptedTotalBudget (config hired_zero_paid)) = 5000000"
    by (simp add: hired_zero_eq)
  show ?thesis
    by (intro conjI) (rule processPayroll_hired_zero kept budget)+
qed

subsection \<open>C2: the example scenario\<close>

text \<open>
  C2: the example scenario, run on the code. The employee at address 5, hired with salary
  5000000 and tax rate 20, is never visited by \<open>processPayroll\<close>, since
  \<open>getEmployeeByIndex\<close> returns the zero address for every index: no payment is written
  for period 1, the year-to-date accumulators stay at zero, and the event reports no processed
  employee. When the same employee sits at the zero address, the loop does visit it, and the
  tax is \<open>5000000 * 20 = 100000000\<close> without any scaling by percent, so that the net pay
  \<open>5000000 - 100000000\<close> wraps to 18446744073614551616 instead of 4000000.
\<close>

theorem example_scenario_run:
  "addEmployee 1 1000 5 salaryInput taxRateInput [salaryInput, taxRateInput] deployed = Inr hired \<and>
   processPayroll 1 2000 hired = Inr hired_paid \<and>
   paymentHistory hired_paid 5 1 = Uninitialized \<and>
   decrypt (paymentHistory hired_paid 5 1) = 0 \<and>
   decrypt (encryptedYTDEarnings (employees hired_paid 5)) = 0 \<and>
   decrypt (encryptedYTDTax (employees hired_paid 5)) = 0 \<and>
   events hired_paid = [EmployeeAdded 5 1000, PayrollProcessed 1 0] \<and>
   addEmployee 1 1000 0 salaryInput taxRateInput [salaryInput, taxRateInput] deployed =
     Inr taxed_zero \<and>
   processPayroll 1 2000 taxed_zero = Inr taxed_zero_paid \<and>
   decrypt (paymentHistory taxed_zero_paid 0 1) = 18446744073614551616 \<and>
   decrypt (encryptedYTDEarnings (employees taxed_zero_paid 0)) = 5000000 \<and>
   decrypt (encryptedYTDTax (employees taxed_zero_paid 0)) = 100000000"
proof -
  have unpaid:
    "paymentHistory hired_paid 5 1 = Uninitialized"
    "decrypt (paymentHistory hired_paid 5 1) = 0"
    "decrypt (encryptedYTDEarnings (employees hired_paid 5)) = 0"
    "decrypt (encryptedYTDTax (employees hired_paid 5)) = 0"
    "events hired_paid = [EmployeeAdded 5 1000, PayrollProcessed 1 0]"
    by (simp_all add: hired_paid_eq hired_eq deployed_def constructor_def)
  have wrapped:
    "decrypt (paymentHistory taxed_zero_paid 0 1) = 18446744073614551616"
    "decrypt (encryptedYTDEarnings (employees taxed_zero_paid 0)) = 5000000"
    "decrypt (encryptedYTDTax (employees taxed_zero_paid 0)) = 100000000"
    by (simp_all add: taxed_zero_paid_eq)
  show ?thesis
    by (intro conjI)
       (rule addEmployee_hired processPayroll_hired unpaid addEmployee_taxed_zero
          processPayroll_taxed_zero wrapped)+
qed

subsection \<open>C3: the gated transfer\<close>

text \<open>
  C3, as stated, fails for a gross pay of 150 with tax 30 against a balance of 100: the amount
  handed to the transfer decrypts to 0, and with the reference transfer the employee's
  balance stays 0, while the minimum of the net pay 120 and the balance 100 is 100.
\<close>

theorem transfer_min_counterexample:
  "processPayrollPayment referenceUpdate 1 3000 5 (TrivialEncrypt 150) (TrivialEncrypt 30)
     funded_token = Inr underfunded_payment \<and>
   decrypt (confidentialBalanceOf funded_token 1) = 100 \<and>
   decrypt (FHE_sub (TrivialEncrypt 150) (TrivialEncrypt 30)) = 120 \<and>
   decrypt (actualTransfer funded_token 1 (TrivialEncrypt 150) (TrivialEncrypt 30)) = 0 \<and>
   decrypt (confidentialBalanceOf funded_token 5) = 0 \<and>
   decrypt (confidentialBalanceOf underfunded_payment 5) = 0 \<and>
   decrypt (confidentialBalanceOf underfunded_payment 1) = 100 \<and>
   decrypt (actualTransfer funded_token 1 (TrivialEncrypt 150) (TrivialEncrypt 30)) \<noteq>
     min (decrypt (FHE_sub (TrivialEncrypt 150) (TrivialEncrypt 30)))
         (decrypt (confidentialBalanceOf funded_token 1))"
  by (simp add: processPayrollPayment_underfunded underfunded_payment_balances)
     (simp add: token_defs)

text \<open>
  C3, amended: the amount that \<open>PayrollToken.processPayrollPayment\<close> hands to the transfer
  is the homomorphic select, on the encrypted comparison \<open>grossPay \<le> balance(sender)\<close>,
  between the net pay and an encrypted zero; it decrypts to the full net pay when the gross
  pay is covered and to zero otherwise (all or nothing, not the minimum). A successful call
  has handed exactly this ciphertext to the transfer primitive, whose result is the new
  balances. \<open>ConfidentialPayrollSystem._transferConfidentialPayment\<close> moves no balance: it
  grants the payment token permission on the amount and does nothing else.
\<close>

theorem transfer_is_all_or_nothing:
  "actualTransfer t sender grossPay taxAmount =
     FHE_select (FHE_le grossPay (confidentialBalanceOf t sender))
                (FHE_sub grossPay taxAmount) (FHE_asEuint64 0) \<and>
   decrypt (actualTransfer t sender grossPay taxAmount) =
     (if decrypt grossPay \<le> decrypt (confidentialBalanceOf t sender)
      then decrypt grossPay - decrypt taxAmount else 0) \<and>
   (processPayrollPayment update sender now employee grossPay taxAmount t = Inr t' \<longrightarrow>
      (\<exists>b. update sender employee (actualTransfer t sender grossPay taxAmount) (base t) = Some b \<and>
           balances (base t') = balances b \<and> totalSupply (base t') = totalSupply b)) \<and>
   transferConfidentialPayment to amount s =
     s\<lparr>permissions := insert (amount, paymentToken (config s)) (permissions s)\<rparr>"
  by (auto simp: actualTransfer_def Let_def FHE_select_def FHE_le_def FHE_sub_def FHE_asEuint64_def
        processPayrollPayment_def onlyPayrollManager_def transferConfidentialPayment_def
        FHE_allow_def split: if_splits option.splits)

theorem transfer_is_all_or_nothing_witness:
  "processPayrollPayment referenceUpdate 1 3000 5 (TrivialEncrypt 60) (TrivialEncrypt 10)
     funded_token = Inr funded_payment \<and>
   decrypt (actualTransfer funded_token 1 (TrivialEncrypt 60) (TrivialEncrypt 10)) = 50 \<and>
   (\<exists>b. referenceUpdate 1 5 (actualTransfer funded_token 1 (TrivialEncrypt 60) (TrivialEncrypt 10))
          (base funded_token) = Some b \<and>
        balances (base funded_payment) = balances b \<and>
        totalSupply (base funded_payment) = totalSupply b)"
proof -
  note all_or_nothing =
    transfer_is_all_or_nothing [of funded_token 1 "TrivialEncrypt 60" "TrivialEncrypt 10"
      referenceUpdate 3000 5 funded_payment 5 "TrivialEncrypt 50" deployed]
  have "decrypt (actualTransfer funded_token 1 (TrivialEncrypt 60) (TrivialEncrypt 10)) =
      (if decrypt (TrivialEncrypt 60) \<le> decrypt (confidentialBalanceOf funded_token 1)
       then decrypt (TrivialEncrypt 60) - decrypt (TrivialEncrypt 10) else 0)"
    using all_or_nothing by (rule conjunct2 [THEN conjunct1])
  then have amount:
    "decrypt (actualTransfer funded_token 1 (TrivialEncrypt 60) (TrivialEncrypt 10)) = 50"
    by (simp add: confidentialBalanceOf_def funded_token_def)
  have "processPayrollPayment referenceUpdate 1 3000 5 (TrivialEncrypt 60) (TrivialEncrypt 10)
          funded_token = Inr funded_payment \<longrightarrow>
        (\<exists>b. referenceUpdate 1 5
                (actualTransfer funded_token 1 (TrivialEncrypt 60) (TrivialEncrypt 10))
                (base funded_token) = Some b \<and>
             balances (base funded_payment) = balances b \<and>
             totalSupply (base funded_payment) = totalSupply b)"
    using all_or_nothing by (rule conjunct2 [THEN conjunct2, THEN conjunct1])
  then have handed:
    "\<exists>b. referenceUpdate 1 5
            (actualTransfer funded_token 1 (TrivialEncrypt 60) (TrivialEncrypt 10))
            (base funded_token) = Some b \<and>
         balances (base funded_payment) = balances b \<and>
         totalSupply (base funded_payment) = totalSupply b"
    using processPayrollPayment_funded by (rule mp)
  show ?thesis
    by (intro conjI) (rule processPayrollPayment_funded amount handed)+
qed

subsection \<open>C4: paying twice\<close>




subsection \<open>C5: authorization and fatal conditions\<close>

text \<open>
  C5: a caller without the required role makes \<open>addEmployee\<close>, \<open>processPayroll\<close>,
  \<open>updateSalary\<close>, \<open>distributeBonus\<close> and \<open>generateComplianceReport\<close> fail with the
  authorization error of \<open>AccessControl\<close>, and a caller who is not a payroll manager makes
  the payment functions of \<open>PayrollToken\<close> fail; a failed call returns the error and no
  state. For an authorized caller, adding an active employee again fails, and
  \<open>updateSalary\<close> and \<open>distributeBonus\<close> on an inactive employee fail with
  \<open>Employee not found\<close>.
\<close>

theorem unauthorized_calls_fail:
  "(\<not> hasRole s PAYROLL_ADMIN_ROLE sender \<longrightarrow>
      addEmployee sender now employee encSalary encTaxRate inputProof s =
        Inl (AccessControlUnauthorizedAccount sender PAYROLL_ADMIN_ROLE) \<and>
      processPayroll sender now s =
        Inl (AccessControlUnauthorizedAccount sender PAYROLL_ADMIN_ROLE) \<and>
      updateSalary sender employee encSalary inputProof s =
        Inl (AccessControlUnauthorizedAccount sender PAYROLL_ADMIN_ROLE)) \<and>
   (\<not> hasRole s EMPLOYER_ROLE sender \<longrightarrow>
      distributeBonus sender now employee encBonus inputProof s =
        Inl (AccessControlUnauthorizedAccount sender EMPLOYER_ROLE)) \<and>
   (\<not> hasRole s AUDITOR_ROLE sender \<longrightarrow>
      generateComplianceReport sender now s =
        Inl (AccessControlUnauthorizedAccount sender AUDITOR_ROLE)) \<and>
   (\<not> payrollManagers t sender \<longrightarrow>
      processPayrollPayment update sender now employee grossPay taxAmount t =
        Inl (Revert ''Not a payroll manager'') \<and>
      batchProcessPayroll update sender now es grossPayments taxAmounts t =
        Inl (Revert ''Not a payroll manager'') \<and>
      remitTaxWithholdings update sender now t = Inl (Revert ''Not a payroll manager'')) \<and>
   (hasRole s PAYROLL_ADMIN_ROLE admin \<and> isActive (employees s employee) \<longrightarrow>
      addEmployee admin now employee encSalary encTaxRate inputProof s =
        Inl (Revert ''Employee already exists'')) \<and>
   (hasRole s PAYROLL_ADMIN_ROLE admin \<and> \<not> isActive (employees s stranger) \<longrightarrow>
      updateSalary admin stranger encSalary inputProof s = Inl (Revert ''Employee not found'')) \<and>
   (hasRole s EMPLOYER_ROLE admin \<and> \<not> isActive (employees s stranger) \<longrightarrow>
      distributeBonus admin now stranger encBonus inputProof s =
        Inl (Revert ''Employee not found''))"
  by (simp add: addEmployee_def processPayroll_def updateSalary_def distributeBonus_def
        generateComplianceReport_def processPayrollPayment_def batchProcessPayroll_def
        remitTaxWithholdings_def onlyRole_def onlyPayrollManager_def)

theorem unauthorized_calls_fail_witness:
  "\<not> hasRole hired PAYROLL_ADMIN_ROLE 5 \<and> \<not> hasRole hired EMPLOYER_ROLE 5 \<and>
   \<not> hasRole hired AUDITOR_ROLE 5 \<and> \<not> payrollManagers funded_token 5 \<and>
   hasRole hired PAYROLL_ADMIN_ROLE 1 \<and> hasRole hired EMPLOYER_ROLE 1 \<and>
   isActive (employees hired 5) \<and> \<not> isActive (employees hired 6) \<and>
   addEmployee 5 3000 5 salaryInput taxRateInput [salaryInput, taxRateInput] hired =
     Inl (AccessControlUnauthorizedAccount 5 PAYROLL_ADMIN_ROLE) \<and>
   processPayroll 5 3000 hired = Inl (AccessControlUnauthorizedAccount 5 PAYROLL_ADMIN_ROLE) \<and>
   updateSalary 5 5 salaryInput [salaryInput, taxRateInput] hired =
     Inl (AccessControlUnauthorizedAccount 5 PAYROLL_ADMIN_ROLE) \<and>
   distributeBonus 5 3000 5 raiseInput [salaryInput, taxRateInput] hired =
     Inl (AccessControlUnauthorizedAccount 5 EMPLOYER_ROLE) \<and>
   generateComplianceReport 5 3000 hired = Inl (AccessControlUnauthorizedAccount 5 AUDITOR_ROLE) \<and>
   processPayrollPayment referenceUpdate 5 3000 5 (TrivialEncrypt 60) (TrivialEncrypt 10)
     funded_token = Inl (Revert ''Not a payroll manager'') \<and>
   batchProcessPayroll referenceUpdate 5 3000 [5] [TrivialEncrypt 60] [TrivialEncrypt 10]
     funded_token = Inl (Revert ''Not a payroll manager'') \<and>
   remitTaxWithholdings referenceUpdate 5 3000 funded_token = Inl (Revert ''Not a payroll manager'') \<and>
   addEmployee 1 3000 5 salaryInput taxRateInput [salaryInput, taxRateInput] hired =
     Inl (Revert ''Employee already exists'') \<and>
   updateSalary 1 6 salaryInput [salaryInput, taxRateInput] hired =
     Inl (Revert ''Employee not found'') \<and>
   distributeBonus 1 3000 6 raiseInput [salaryInput, taxRateInput] hired =
     Inl (Revert ''Employee not found'')"
proof -
  have roles:
    "\<not> hasRole hired PAYROLL_ADMIN_ROLE 5" "\<not> hasRole hired EMPLOYER_ROLE 5"
    "\<not> hasRole hired AUDITOR_ROLE 5" "\<not> payrollManagers funded_token 5"
    "hasRole hired PAYROLL_ADMIN_ROLE 1" "hasRole hired EMPLOYER_ROLE 1"
    "isActive (employees hired 5)" "\<not> isActive (employees hired 6)"
    by (simp_all add: hired_eq deployed_def constructor_def hasRole_def emptyEmployee_def
          funded_token_def)
  note fails =
    unauthorized_calls_fail [of hired 5 3000 5 salaryInput taxRateInput
      "[salaryInput, taxRateInput]" raiseInput funded_token referenceUpdate
      "TrivialEncrypt 60" "TrivialEncrypt 10" "[5]" "[TrivialEncrypt 60]" "[TrivialEncrypt 10]"
      1 6]
  show ?thesis
    using roles fails by simp
qed

subsection \<open>C6: updating a salary\<close>



subsection \<open>C7: the compliance report\<close>

text \<open>
  C7: the compliance report, run on the code with two active employees, at the zero address
  (year-to-date earnings 5000000) and at address 5 (year-to-date earnings 0). The loop reads
  the zero address at both indices, so the aggregate on which the auditor is granted
  permission decrypts to 10000000, not to the sum 5000000 over the active employees. The
  returned identifier is the hash of the period, the number of employees and the time.
\<close>

theorem compliance_report_run:
  "generateComplianceReport 9 4000 with_auditor = Inr (Keccak256 [1, 2, 4000], reported) \<and>
   totalEmployees with_auditor = 2 \<and>
   {a. isEmployee with_auditor a} = {0, 5} \<and>
   decrypt (encryptedYTDEarnings (employees with_auditor 0)) = 5000000 \<and>
   decrypt (encryptedYTDEarnings (employees with_auditor 5)) = 0 \<and>
   decrypt (fst (complianceTotals with_auditor)) = 10000000 \<and>
   FHE_isAllowed (fst (complianceTotals with_auditor)) 9 (permissions reported)"
proof -
  have state:
    "totalEmployees with_auditor = 2"
    "{a. isEmployee with_auditor a} = {0, 5}"
    "decrypt (encryptedYTDEarnings (employees with_auditor 0)) = 5000000"
    "decrypt (encryptedYTDEarnings (employees with_auditor 5)) = 0"
    by (auto simp: isEmployee_def with_auditor_eq two_hired_eq hired_zero_paid_eq hired_zero_eq
          deployed_def constructor_def emptyEmployee_def)
  have total: "decrypt (fst (complianceTotals with_auditor)) = 10000000"
    by (simp add: complianceTotals_with_auditor)
  have granted: "FHE_isAllowed (fst (complianceTotals with_auditor)) 9 (permissions reported)"
    by (simp add: reported_eq FHE_isAllowed_def FHE_allow_def)
  show ?thesis
    by (intro conjI) (rule generateComplianceReport_with_auditor state total granted)+
qed

subsection \<open>C8: the event log\<close>

text \<open>
  C8: \<open>updateSalary\<close>, run on the code: the successful raise of the salary of the employee
  at address 5 leaves the event log as it was, with the single entry of the hiring.
\<close>

theorem updateSalary_emits_nothing:
  "updateSalary 1 5 raiseInput [raiseInput] hired = Inr hired_raised \<and>
   events hired = [EmployeeAdded 5 1000] \<and>
   events hired_raised = [EmployeeAdded 5 1000]"
proof -
  have log: "events hired = [EmployeeAdded 5 1000]" "events hired_raised = [EmployeeAdded 5 1000]"
    by (simp_all add: hired_raised_eq hired_eq)
  show ?thesis
    by (intro conjI) (rule updateSalary_hired log)+
qed

subsection \<open>C9: withholdings accumulate whatever the balance check says\<close>



subsection \<open>C10: employees stay active\<close>

text \<open>
  C10: once \<open>addEmployee\<close> has succeeded for an address, the address is an active employee,
  and along every sequence of transitions an active employee stays active and
  \<open>totalEmployees\<close> never decreases: \<open>isEmployee\<close> never goes from true to false.
\<close>

theorem isEmployee_never_cleared:
  "(addEmployee sender now a encSalary encTaxRate inputProof s0 = Inr s \<longrightarrow> isEmployee s a) \<and>
   (step\<^sup>*\<^sup>* s s' \<longrightarrow>
      (isEmployee s a \<longrightarrow> isEmployee s' a) \<and> totalEmployees s \<le> totalEmployees s')"
proof (intro conjI impI)
  assume "addEmployee sender now a encSalary encTaxRate inputProof s0 = Inr s"
  then show "isEmployee s a"
    by (simp add: isEmployee_def addEmployee_active)
next
  assume "step\<^sup>*\<^sup>* s s'" and "isEmployee s a"
  then show "isEmployee s' a"
    by (induction rule: rtranclp_induct) (auto simp: isEmployee_def dest: step_isActive)
next
  assume "step\<^sup>*\<^sup>* s s'"
  then show "totalEmployees s \<le> totalEmployees s'"
    by (induction rule: rtranclp_induct) (auto dest: step_totalEmployees)
qed

theorem isEmployee_never_cleared_witness:
  "addEmployee 1 1000 5 salaryInput taxRateInput [salaryInput, taxRateInput] deployed = Inr hired \<and>
   step\<^sup>*\<^sup>* hired hired_paid \<and> isEmployee hired 5 \<and> isEmployee hired_paid 5 \<and>
   totalEmployees hired \<le> totalEmployees hired_paid"
proof -
  have "step hired hired_paid"
    using processPayroll_hired by (rule step_processPayroll)
  then have "step\<^sup>*\<^sup>* hired hired_paid" by (rule r_into_rtranclp)
  with addEmployee_hired
    isEmployee_never_cleared
      [of 1 1000 5 salaryInput taxRateInput "[salaryInput, taxRateInput]" deployed hired hired_paid]
  show ?thesis by simp
qed

end
